theory Spec2Isabelle
  imports Main
begin

section \<open>Listing secrets: pkg/cmd/secret/list/list.go\<close>

text \<open>
  A shallow embedding of \<^verbatim>\<open>listRun\<close> and its helpers. Strings are byte lists, as Go's are.
  Every collaborator the command calls (the HTTP client factory, the repository accessor, the
  REST helper, the table printer's \<^verbatim>\<open>Render\<close>) is recorded in a trace of events, so that
  which calls happen, in which order and with which arguments, is part of the result.
\<close>

subsection \<open>Errors\<close>

text \<open>
  A Go \<^verbatim>\<open>error\<close> is either a plain error with its message, or the value built by
  \<^verbatim>\<open>fmt.Errorf\<close> with the verb \<^verbatim>\<open>%w\<close>: a new error that carries its own message and
  the error it wraps.
\<close>

datatype error = Err string | WrapError string error

fun ErrorMsg :: "error \<Rightarrow> string" where
  "ErrorMsg (Err m) = m"
| "ErrorMsg (WrapError m e) = m"

fun Unwrap :: "error \<Rightarrow> error option" where
  "Unwrap (Err m) = None"
| "Unwrap (WrapError m e) = Some e"

text \<open>\<^verbatim>\<open>fmt.Errorf(prefix + "%w", err)\<close>: the message is the prefix followed by the message of
  \<^verbatim>\<open>err\<close>, and \<^verbatim>\<open>err\<close> is kept as the wrapped error.\<close>

definition Errorf :: "string \<Rightarrow> error \<Rightarrow> error" where
  "Errorf prefix err = WrapError (prefix @ ErrorMsg err) err"

subsection \<open>Data\<close>

text \<open>\<^verbatim>\<open>time.Time\<close>, reduced to the calendar date that \<^verbatim>\<open>Format\<close> reads from it
  (the date of the instant in the time's own location).\<close>

record Time =
  Year :: int
  Month :: int
  Day :: int

record Secret =
  Name :: string
  UpdatedAt :: Time
  Visibility :: string

record secretsPayload =
  Secrets :: "Secret list"

text \<open>\<^verbatim>\<open>ghrepo.Interface\<close>: the three accessors of a repository.\<close>

record Repo =
  RepoName :: string
  RepoOwner :: string
  RepoHost :: string

text \<open>Modelled from the spec: \<^verbatim>\<open>ghrepo.FullName\<close> is not among the sources; the repository
  is "addressed by full owner/name", the path being \<^verbatim>\<open>repos/{owner}/{name}/actions/secrets\<close>.\<close>

definition FullName :: "Repo \<Rightarrow> string" where
  "FullName r = RepoOwner r @ ''/'' @ RepoName r"

text \<open>Modelled from the spec: the constants of package \<^verbatim>\<open>shared\<close> are not among the sources;
  the visibility tags are \<^verbatim>\<open>all\<close>, \<^verbatim>\<open>private\<close> and \<^verbatim>\<open>selected\<close>.\<close>

definition VisAll :: string where
  "VisAll = ''all''"

definition VisPrivate :: string where
  "VisPrivate = ''private''"

definition VisSelected :: string where
  "VisSelected = ''selected''"

subsection \<open>Go's standard library, as far as the command uses it\<close>

text \<open>\<^verbatim>\<open>time.appendInt\<close>: a minus sign for a negative number, then the decimal digits of the
  absolute value, padded with zeros on the left up to \<^verbatim>\<open>width\<close>.\<close>

definition digit :: "nat \<Rightarrow> char" where
  "digit n = ''0123456789'' ! (n mod 10)"

function decimal :: "nat \<Rightarrow> string" where
  "decimal n = (if n < 10 then [digit n] else decimal (n div 10) @ [digit n])"
  by pat_completeness auto
termination
  by (relation "measure id") auto

declare decimal.simps [simp del]

definition appendInt :: "int \<Rightarrow> nat \<Rightarrow> string" where
  "appendInt x width =
     (let ds = decimal (nat \<bar>x\<bar>)
      in (if x < 0 then ''-'' else []) @ replicate (width - length ds) (CHR ''0'') @ ds)"

text \<open>\<^verbatim>\<open>t.Format("2006-01-02")\<close>: the year on four digits, the month and the day on two.\<close>

definition Format_2006_01_02 :: "Time \<Rightarrow> string" where
  "Format_2006_01_02 t =
     appendInt (Year t) 4 @ ''-'' @ appendInt (Month t) 2 @ ''-'' @ appendInt (Day t) 2"

text \<open>
  \<^verbatim>\<open>strings.ToUpper\<close>. On a string of ASCII bytes only, each byte from \<^verbatim>\<open>a\<close> to \<^verbatim>\<open>z\<close> is
  moved to its capital and every other byte is kept. On any other string Go maps
  \<^verbatim>\<open>unicode.ToUpper\<close> over the runes; the Unicode tables are taken as a parameter.
\<close>

definition isASCII :: "char \<Rightarrow> bool" where
  "isASCII c = ((of_char c :: nat) < 128)"

definition upperByte :: "char \<Rightarrow> char" where
  "upperByte c =
     (let n = (of_char c :: nat) in if 97 \<le> n \<and> n \<le> 122 then char_of (n - 32) else c)"

definition ToUpper :: "(string \<Rightarrow> string) \<Rightarrow> string \<Rightarrow> string" where
  "ToUpper unicodeUpper s = (if list_all isASCII s then map upperByte s else unicodeUpper s)"

subsection \<open>Collaborators\<close>

text \<open>
  The HTTP client answers a request, given by host, method and path, with a decoded payload
  or an error; \<^verbatim>\<open>client.REST(host, "GET", path, nil, &result)\<close> is that answer.
\<close>

type_synonym http_Client = "string \<Rightarrow> string \<Rightarrow> string \<Rightarrow> error + secretsPayload"

record api_Client =
  http :: http_Client

definition NewClientFromHTTP :: "http_Client \<Rightarrow> api_Client" where
  "NewClientFromHTTP c = \<lparr>http = c\<rparr>"

definition REST :: "api_Client \<Rightarrow> string \<Rightarrow> string \<Rightarrow> string \<Rightarrow> error + secretsPayload" where
  "REST client host method path = http client host method path"

text \<open>\<^verbatim>\<open>iostreams.IOStreams\<close>: whether standard output is a terminal, and what writing a
  table (its rows, each a list of fields) to standard output answers: an error or nothing.\<close>

record IOStreams =
  IsStdoutTTY :: bool
  Out :: "string list list \<Rightarrow> error option"

text \<open>What lives outside the options: the default host (\<^verbatim>\<open>ghinstance.OverridableDefault\<close>)
  and the Unicode upper-casing of \<^verbatim>\<open>strings.ToUpper\<close>.\<close>

record world =
  OverridableDefault :: string
  unicodeUpper :: "string \<Rightarrow> string"

text \<open>The function fields \<^verbatim>\<open>HttpClient\<close> and \<^verbatim>\<open>BaseRepo\<close> take no argument and are called
  at most once: each is given by what its call returns.\<close>

record ListOptions =
  HttpClient :: "error + http_Client"
  IO :: IOStreams
  BaseRepo :: "error + Repo"
  OrgName :: string

text \<open>
  Modelled from the spec: \<^verbatim>\<open>utils.TablePrinter\<close> is not among the sources. It is a builder:
  \<^verbatim>\<open>AddField\<close> appends a field to the row under construction, \<^verbatim>\<open>EndRow\<close> closes that row,
  \<^verbatim>\<open>Render\<close> writes the rows to the destination and may fail. The command passes \<^verbatim>\<open>nil\<close>
  for the colour and width functions of every field, so a field is its value.
\<close>

record TablePrinter =
  tp_io :: IOStreams
  tp_rows :: "string list list"
  tp_cur :: "string list"

definition NewTablePrinter :: "IOStreams \<Rightarrow> TablePrinter" where
  "NewTablePrinter io = \<lparr>tp_io = io, tp_rows = [], tp_cur = []\<rparr>"

definition AddField :: "string \<Rightarrow> TablePrinter \<Rightarrow> TablePrinter" where
  "AddField v tp = tp\<lparr>tp_cur := tp_cur tp @ [v]\<rparr>"

definition EndRow :: "TablePrinter \<Rightarrow> TablePrinter" where
  "EndRow tp = tp\<lparr>tp_rows := tp_rows tp @ [tp_cur tp], tp_cur := []\<rparr>"

definition Render :: "TablePrinter \<Rightarrow> error option" where
  "Render tp = Out (tp_io tp) (tp_rows tp)"

subsection \<open>Events and outcomes\<close>

datatype event =
    CallHttpClient
  | CallBaseRepo
  | CallREST string string string
  | CallRender "string list list"

text \<open>A run returns an error or \<^verbatim>\<open>nil\<close>, or it panics on a nil interface.\<close>

datatype outcome = Returned "error option" | Panicked

fun isREST :: "event \<Rightarrow> bool" where
  "isREST (CallREST h m p) = True"
| "isREST ev = False"

fun isRender :: "event \<Rightarrow> bool" where
  "isRender (CallRender rows) = True"
| "isRender ev = False"

subsection \<open>The fetcher\<close>

definition getSecrets :: "api_Client \<Rightarrow> string \<Rightarrow> string \<Rightarrow> event list \<times> (error + Secret list)" where
  "getSecrets client host path =
     ([CallREST host ''GET'' path],
      case REST client host ''GET'' path of
        Inl err \<Rightarrow> Inl err
      | Inr result \<Rightarrow> Inr (Secrets result))"

definition getOrgSecrets :: "api_Client \<Rightarrow> string \<Rightarrow> string \<Rightarrow> event list \<times> (error + Secret list)" where
  "getOrgSecrets client host orgName =
     getSecrets client host (''orgs/'' @ orgName @ ''/actions/secrets'')"

definition getRepoSecrets :: "api_Client \<Rightarrow> Repo \<Rightarrow> event list \<times> (error + Secret list)" where
  "getRepoSecrets client repo =
     getSecrets client (RepoHost repo) (''repos/'' @ FullName repo @ ''/actions/secrets'')"

subsection \<open>The presenter\<close>

definition fmtVisibility :: "Secret \<Rightarrow> string" where
  "fmtVisibility s =
     (if Visibility s = VisAll then ''Visible to all repositories''
      else if Visibility s = VisPrivate then ''Visible to private repositories''
      else if Visibility s = VisSelected then ''Visible to selected repositories''
      else [])"

text \<open>The body of the loop over the secrets (lines 91 to 104).\<close>

definition addSecret :: "world \<Rightarrow> ListOptions \<Rightarrow> TablePrinter \<Rightarrow> Secret \<Rightarrow> TablePrinter" where
  "addSecret w opts tp0 secret =
     (let tp1 = AddField (Name secret) tp0;
          updatedAt0 = Format_2006_01_02 (UpdatedAt secret);
          updatedAt = (if IsStdoutTTY (IO opts) then ''Updated '' @ updatedAt0 else updatedAt0);
          tp2 = AddField updatedAt tp1;
          tp3 = (if Visibility secret \<noteq> []
                 then (if IsStdoutTTY (IO opts)
                       then AddField (fmtVisibility secret) tp2
                       else AddField (ToUpper (unicodeUpper w) (Visibility secret)) tp2)
                 else tp2)
      in EndRow tp3)"

fun rangeSecrets :: "world \<Rightarrow> ListOptions \<Rightarrow> TablePrinter \<Rightarrow> Secret list \<Rightarrow> TablePrinter" where
  "rangeSecrets w opts tp [] = tp"
| "rangeSecrets w opts tp (secret # rest) = rangeSecrets w opts (addSecret w opts tp secret) rest"

text \<open>Lines 89 to 112: build the table, render it, return what \<^verbatim>\<open>Render\<close> returns.\<close>

definition listRun_render :: "world \<Rightarrow> ListOptions \<Rightarrow> Secret list \<Rightarrow> event list \<times> outcome" where
  "listRun_render w opts secrets =
     (let tp = rangeSecrets w opts (NewTablePrinter (IO opts)) secrets
      in ([CallRender (tp_rows tp)], Returned (Render tp)))"

subsection \<open>The command\<close>

definition after :: "event list \<Rightarrow> event list \<times> outcome \<Rightarrow> event list \<times> outcome" where
  "after tr r = (tr @ fst r, snd r)"

text \<open>Lines 71 to 87, followed by the presenter. \<^verbatim>\<open>baseRepo\<close> is \<^verbatim>\<open>None\<close> when the variable
  still holds the nil interface; a method call on it panics.\<close>

definition listRun_fetch :: "world \<Rightarrow> ListOptions \<Rightarrow> api_Client \<Rightarrow> Repo option \<Rightarrow> event list \<times> outcome" where
  "listRun_fetch w opts client baseRepo =
     (case (if OrgName opts = ''@owner''
            then (case baseRepo of
                    None \<Rightarrow> None
                  | Some r \<Rightarrow> Some (RepoOwner r, RepoHost r))
            else Some (OrgName opts, OverridableDefault w)) of
        None \<Rightarrow> ([], Panicked)
      | Some (orgName, host) \<Rightarrow>
          (case (if orgName \<noteq> []
                 then Some (getOrgSecrets client host orgName)
                 else (case baseRepo of
                         None \<Rightarrow> None
                       | Some r \<Rightarrow> Some (getRepoSecrets client r))) of
             None \<Rightarrow> ([], Panicked)
           | Some (tr, Inl err) \<Rightarrow> (tr, Returned (Some (Errorf ''failed to get secrets: '' err)))
           | Some (tr, Inr secrets) \<Rightarrow> after tr (listRun_render w opts secrets)))"

definition listRun :: "world \<Rightarrow> ListOptions \<Rightarrow> event list \<times> outcome" where
  "listRun w opts =
     (case HttpClient opts of
        Inl err \<Rightarrow>
          ([CallHttpClient], Returned (Some (Errorf ''could not create http client: '' err)))
      | Inr c \<Rightarrow>
          (let client = NewClientFromHTTP c
           in if OrgName opts = [] \<or> OrgName opts = ''@owner''
              then (case BaseRepo opts of
                      Inl err \<Rightarrow>
                        ([CallHttpClient, CallBaseRepo],
                         Returned (Some (Errorf ''could not determine base repo: '' err)))
                    | Inr r \<Rightarrow>
                        after [CallHttpClient, CallBaseRepo] (listRun_fetch w opts client (Some r)))
              else after [CallHttpClient] (listRun_fetch w opts client None)))"

text \<open>The row that one pass of the loop body puts into the table of a fresh printer.\<close>

definition renderedRow :: "world \<Rightarrow> ListOptions \<Rightarrow> Secret \<Rightarrow> string list" where
  "renderedRow w opts secret = last (tp_rows (addSecret w opts (NewTablePrinter (IO opts)) secret))"

subsection \<open>Concrete inputs\<close>

text \<open>Inputs on which the theorems below are instantiated: a world whose default host is
  \<^verbatim>\<open>github.com\<close>, a repository on another host, and clients that answer every request alike.\<close>

definition exWorld :: world where
  "exWorld = \<lparr>OverridableDefault = ''github.com'', unicodeUpper = id\<rparr>"

definition exRepo :: Repo where
  "exRepo = \<lparr>RepoName = ''widgets'', RepoOwner = ''octo'', RepoHost = ''ghe.example.com''\<rparr>"

definition exRepoNoOwner :: Repo where
  "exRepoNoOwner = \<lparr>RepoName = ''widgets'', RepoOwner = [], RepoHost = ''ghe.example.com''\<rparr>"

definition exOrgSecret :: Secret where
  "exOrgSecret =
     \<lparr>Name = ''TOKEN'', UpdatedAt = \<lparr>Year = 2024, Month = 1, Day = 15\<rparr>, Visibility = ''all''\<rparr>"

definition exRepoSecret :: Secret where
  "exRepoSecret =
     \<lparr>Name = ''KEY'', UpdatedAt = \<lparr>Year = 2023, Month = 12, Day = 1\<rparr>, Visibility = []\<rparr>"

definition exClient :: http_Client where
  "exClient host method path = Inr \<lparr>Secrets = [exOrgSecret, exRepoSecret]\<rparr>"

definition exClientEmpty :: http_Client where
  "exClientEmpty host method path = Inr \<lparr>Secrets = []\<rparr>"

definition exClientFails :: http_Client where
  "exClientFails host method path = Inl (Err ''HTTP 404'')"

definition exOut :: "string list list \<Rightarrow> error option" where
  "exOut rows = None"

definition exOutFails :: "string list list \<Rightarrow> error option" where
  "exOutFails rows = Some (Err ''broken pipe'')"

definition exOpts :: "string \<Rightarrow> bool \<Rightarrow> ListOptions" where
  "exOpts org tty =
     \<lparr>HttpClient = Inr exClient, IO = \<lparr>IsStdoutTTY = tty, Out = exOut\<rparr>,
      BaseRepo = Inr exRepo, OrgName = org\<rparr>"

definition exOptsNoOwner :: ListOptions where
  "exOptsNoOwner =
     \<lparr>HttpClient = Inr exClient, IO = \<lparr>IsStdoutTTY = True, Out = exOut\<rparr>,
      BaseRepo = Inr exRepoNoOwner, OrgName = ''@owner''\<rparr>"

definition exOptsNoRepo :: "string \<Rightarrow> ListOptions" where
  "exOptsNoRepo org =
     \<lparr>HttpClient = Inr exClient, IO = \<lparr>IsStdoutTTY = True, Out = exOut\<rparr>,
      BaseRepo = Inl (Err ''not a git repository''), OrgName = org\<rparr>"

definition exOptsNoClient :: ListOptions where
  "exOptsNoClient =
     \<lparr>HttpClient = Inl (Err ''no token''), IO = \<lparr>IsStdoutTTY = True, Out = exOut\<rparr>,
      BaseRepo = Inr exRepo, OrgName = []\<rparr>"

definition exOptsFetchFails :: ListOptions where
  "exOptsFetchFails =
     \<lparr>HttpClient = Inr exClientFails, IO = \<lparr>IsStdoutTTY = True, Out = exOut\<rparr>,
      BaseRepo = Inr exRepo, OrgName = ''acme''\<rparr>"

definition exOptsRenderFails :: ListOptions where
  "exOptsRenderFails =
     \<lparr>HttpClient = Inr exClient, IO = \<lparr>IsStdoutTTY = False, Out = exOutFails\<rparr>,
      BaseRepo = Inr exRepo, OrgName = ''acme''\<rparr>"

definition exOptsEmpty :: ListOptions where
  "exOptsEmpty =
     \<lparr>HttpClient = Inr exClientEmpty, IO = \<lparr>IsStdoutTTY = True, Out = exOut\<rparr>,
      BaseRepo = Inr exRepo, OrgName = []\<rparr>"

section \<open>Properties\<close>

subsection \<open>Wrapped errors\<close>

lemma Errorf_Unwrap: "Unwrap (Errorf prefix e) = Some e"
  by (simp add: Errorf_def)

lemma Errorf_ErrorMsg: "ErrorMsg (Errorf prefix e) = prefix @ ErrorMsg e"
  by (simp add: Errorf_def)

text \<open>Wrapping under a non-empty prefix never gives the wrapped error back: the message
  grows.\<close>

lemma Errorf_neq: "Errorf (c # prefix) e \<noteq> e"
proof
  assume "Errorf (c # prefix) e = e"
  then have "ErrorMsg (Errorf (c # prefix) e) = ErrorMsg e"
    by simp
  then show False
    by (simp add: Errorf_def)
qed

subsection \<open>Dates and capitals\<close>

lemma decimal_digits: "set (decimal n) \<subseteq> set ''0123456789''"
proof (induction n rule: decimal.induct)
  case (1 n)
  have "digit n \<in> set ''0123456789''"
    unfolding digit_def by (rule nth_mem) simp
  with 1 show ?case
    by (subst decimal.simps) auto
qed

lemma length_decimal: "0 < k \<Longrightarrow> n < 10 ^ k \<Longrightarrow> length (decimal n) \<le> k"
proof (induction k arbitrary: n)
  case 0
  then show ?case
    by simp
next
  case (Suc k)
  show ?case
  proof (cases "n < 10")
    case True
    then show ?thesis
      by (subst decimal.simps) simp
  next
    case False
    with Suc.prems have k: "0 < k"
      by (cases k) auto
    from Suc.prems have "n div 10 < 10 ^ k"
      by (simp add: less_mult_imp_div_less mult.commute)
    from Suc.IH [OF k this] False show ?thesis
      by (subst decimal.simps) simp
  qed
qed

lemma appendInt_length:
  assumes "0 \<le> x" and "x < 10 ^ k" and "0 < k"
  shows "length (appendInt x k) = k"
proof -
  from assms have "nat \<bar>x\<bar> < 10 ^ k"
    by (simp add: nat_less_iff)
  from length_decimal [OF assms(3) this] assms(1) show ?thesis
    by (simp add: appendInt_def Let_def)
qed

lemma appendInt_digits: "0 \<le> x \<Longrightarrow> set (appendInt x k) \<subseteq> set ''0123456789''"
  using decimal_digits [of "nat \<bar>x\<bar>"] by (auto simp add: appendInt_def Let_def)

text \<open>For a date of the years 0 to 9999 the layout gives ten characters: four digits, a
  dash, two digits, a dash, two digits.\<close>

lemma Format_shape:
  assumes "0 \<le> Year t" and "Year t \<le> 9999" and "1 \<le> Month t" and "Month t \<le> 12"
    and "1 \<le> Day t" and "Day t \<le> 31"
  shows "length (Format_2006_01_02 t) = 10 \<and> Format_2006_01_02 t ! 4 = CHR ''-'' \<and>
         Format_2006_01_02 t ! 7 = CHR ''-'' \<and>
         set (Format_2006_01_02 t) \<subseteq> set ''0123456789-''"
proof -
  define ds where "ds = set ''0123456789''"
  define ds' where "ds' = set ''0123456789-''"
  have y: "length (appendInt (Year t) 4) = 4"
    using assms by (intro appendInt_length) simp_all
  have m: "length (appendInt (Month t) 2) = 2"
    using assms by (intro appendInt_length) simp_all
  have d: "length (appendInt (Day t) 2) = 2"
    using assms by (intro appendInt_length) simp_all
  have nonneg: "0 \<le> Year t" "0 \<le> Month t" "0 \<le> Day t"
    using assms by simp_all
  have s: "set (appendInt (Year t) 4) \<subseteq> ds" "set (appendInt (Month t) 2) \<subseteq> ds"
    "set (appendInt (Day t) 2) \<subseteq> ds"
    unfolding ds_def by (rule appendInt_digits, rule nonneg)+
  have sub: "ds \<subseteq> ds'" and dash: "CHR ''-'' \<in> ds'"
    unfolding ds_def ds'_def by simp_all
  have "set (Format_2006_01_02 t) \<subseteq> ds'"
    unfolding Format_2006_01_02_def using s sub dash by auto
  moreover have "length (Format_2006_01_02 t) = 10"
    by (simp add: Format_2006_01_02_def y m d)
  moreover have "Format_2006_01_02 t ! 4 = CHR ''-''"
    by (simp add: Format_2006_01_02_def nth_append y)
  moreover have "Format_2006_01_02 t ! 7 = CHR ''-''"
    by (simp add: Format_2006_01_02_def nth_append y m)
  ultimately show ?thesis
    unfolding ds'_def by blast
qed

lemma ToUpper_all: "ToUpper u ''all'' = ''ALL''"
  by code_simp

subsection \<open>The presenter builds one row per secret\<close>

lemma addSecret_cur: "tp_cur (addSecret w opts tp s) = []"
  by (simp add: addSecret_def EndRow_def Let_def)

lemma addSecret_io: "tp_io (addSecret w opts tp s) = tp_io tp"
  by (simp add: addSecret_def EndRow_def AddField_def Let_def)

lemma renderedRow_eq:
  "renderedRow w opts s =
     [Name s,
      if IsStdoutTTY (IO opts) then ''Updated '' @ Format_2006_01_02 (UpdatedAt s)
      else Format_2006_01_02 (UpdatedAt s)] @
     (if Visibility s = [] then []
      else [if IsStdoutTTY (IO opts) then fmtVisibility s
            else ToUpper (unicodeUpper w) (Visibility s)])"
  by (simp add: renderedRow_def addSecret_def NewTablePrinter_def EndRow_def AddField_def Let_def)

lemma hd_renderedRow: "hd (renderedRow w opts s) = Name s"
  by (simp add: renderedRow_eq)

lemma renderedRow_BaseRepo: "renderedRow w (opts\<lparr>BaseRepo := b\<rparr>) = renderedRow w opts"
  by (rule ext) (simp add: renderedRow_eq)

lemma addSecret_rows:
  "tp_cur tp = [] \<Longrightarrow> tp_rows (addSecret w opts tp s) = tp_rows tp @ [renderedRow w opts s]"
  by (simp add: renderedRow_def addSecret_def NewTablePrinter_def EndRow_def AddField_def Let_def)

text \<open>The loop, by induction on the payload, for any table whose current row is empty.\<close>

lemma rangeSecrets_rows:
  "tp_cur tp = [] \<Longrightarrow>
     tp_rows (rangeSecrets w opts tp secrets) = tp_rows tp @ map (renderedRow w opts) secrets"
  by (induction secrets arbitrary: tp) (simp_all add: addSecret_rows addSecret_cur)

lemma rangeSecrets_io: "tp_io (rangeSecrets w opts tp secrets) = tp_io tp"
  by (induction secrets arbitrary: tp) (simp_all add: addSecret_io)

lemma listRun_render_eq:
  "listRun_render w opts secrets =
     ([CallRender (map (renderedRow w opts) secrets)],
      Returned (Out (IO opts) (map (renderedRow w opts) secrets)))"
  by (simp add: listRun_render_def Let_def Render_def rangeSecrets_rows rangeSecrets_io
      NewTablePrinter_def)

subsection \<open>The runs of the command\<close>

lemma getSecrets_eq:
  "getSecrets (NewClientFromHTTP c) host path =
     ([CallREST host ''GET'' path],
      case c host ''GET'' path of Inl err \<Rightarrow> Inl err | Inr res \<Rightarrow> Inr (Secrets res))"
  by (simp add: getSecrets_def REST_def NewClientFromHTTP_def)

lemma listRun_no_client:
  "HttpClient opts = Inl e \<Longrightarrow>
     listRun w opts =
       ([CallHttpClient], Returned (Some (Errorf ''could not create http client: '' e)))"
  by (simp add: listRun_def)

lemma listRun_no_repo:
  "HttpClient opts = Inr c \<Longrightarrow> OrgName opts = [] \<or> OrgName opts = ''@owner'' \<Longrightarrow>
   BaseRepo opts = Inl e \<Longrightarrow>
     listRun w opts =
       ([CallHttpClient, CallBaseRepo],
        Returned (Some (Errorf ''could not determine base repo: '' e)))"
  by (auto simp add: listRun_def)

text \<open>With a literal organization, with the shorthand, and with the repository: the request
  that is sent, and what follows it.\<close>

lemma listRun_literal:
  assumes "HttpClient opts = Inr c" and "OrgName opts \<noteq> []" and "OrgName opts \<noteq> ''@owner''"
  shows "listRun w opts =
     after [CallHttpClient,
            CallREST (OverridableDefault w) ''GET'' (''orgs/'' @ OrgName opts @ ''/actions/secrets'')]
       (case c (OverridableDefault w) ''GET'' (''orgs/'' @ OrgName opts @ ''/actions/secrets'') of
          Inl err \<Rightarrow> ([], Returned (Some (Errorf ''failed to get secrets: '' err)))
        | Inr res \<Rightarrow> listRun_render w opts (Secrets res))"
  using assms
  by (simp add: listRun_def listRun_fetch_def getOrgSecrets_def getSecrets_eq after_def
      listRun_render_eq split: sum.splits)

lemma listRun_owner:
  assumes "HttpClient opts = Inr c" and "OrgName opts = ''@owner''" and "BaseRepo opts = Inr r"
    and "RepoOwner r \<noteq> []"
  shows "listRun w opts =
     after [CallHttpClient, CallBaseRepo,
            CallREST (RepoHost r) ''GET'' (''orgs/'' @ RepoOwner r @ ''/actions/secrets'')]
       (case c (RepoHost r) ''GET'' (''orgs/'' @ RepoOwner r @ ''/actions/secrets'') of
          Inl err \<Rightarrow> ([], Returned (Some (Errorf ''failed to get secrets: '' err)))
        | Inr res \<Rightarrow> listRun_render w opts (Secrets res))"
  using assms
  by (simp add: listRun_def listRun_fetch_def getOrgSecrets_def getSecrets_eq after_def
      listRun_render_eq split: sum.splits)

lemma listRun_repo:
  assumes "HttpClient opts = Inr c" and "BaseRepo opts = Inr r"
    and "OrgName opts = [] \<or> OrgName opts = ''@owner'' \<and> RepoOwner r = []"
  shows "listRun w opts =
     after [CallHttpClient, CallBaseRepo,
            CallREST (RepoHost r) ''GET''
              (''repos/'' @ RepoOwner r @ ''/'' @ RepoName r @ ''/actions/secrets'')]
       (case c (RepoHost r) ''GET''
               (''repos/'' @ RepoOwner r @ ''/'' @ RepoName r @ ''/actions/secrets'') of
          Inl err \<Rightarrow> ([], Returned (Some (Errorf ''failed to get secrets: '' err)))
        | Inr res \<Rightarrow> listRun_render w opts (Secrets res))"
  using assms
  by (auto simp add: listRun_def listRun_fetch_def getRepoSecrets_def getSecrets_eq after_def
      listRun_render_eq FullName_def split: sum.splits)

text \<open>Every run has one of four shapes: it stops at the client, at the repository, at the
  request, or it renders. In particular no run panics.\<close>

lemma listRun_cases:
  obtains (no_client) e where "HttpClient opts = Inl e"
      "listRun w opts =
         ([CallHttpClient], Returned (Some (Errorf ''could not create http client: '' e)))"
  | (no_repo) c e where "HttpClient opts = Inr c"
      "OrgName opts = [] \<or> OrgName opts = ''@owner''" "BaseRepo opts = Inl e"
      "listRun w opts =
         ([CallHttpClient, CallBaseRepo],
          Returned (Some (Errorf ''could not determine base repo: '' e)))"
  | (fetch_error) c pre h p e where "HttpClient opts = Inr c"
      "pre = [CallHttpClient] \<or> pre = [CallHttpClient, CallBaseRepo]"
      "c h ''GET'' p = Inl e"
      "listRun w opts =
         (pre @ [CallREST h ''GET'' p], Returned (Some (Errorf ''failed to get secrets: '' e)))"
  | (rendered) c pre h p res where "HttpClient opts = Inr c"
      "pre = [CallHttpClient] \<or> pre = [CallHttpClient, CallBaseRepo]"
      "c h ''GET'' p = Inr res"
      "listRun w opts =
         (pre @ [CallREST h ''GET'' p, CallRender (map (renderedRow w opts) (Secrets res))],
          Returned (Out (IO opts) (map (renderedRow w opts) (Secrets res))))"
proof (cases "HttpClient opts")
  case (Inl e)
  then show ?thesis
    using no_client listRun_no_client by blast
next
  case (Inr c)
  have step: thesis
    if run: "listRun w opts =
        after (pre @ [CallREST h ''GET'' p])
          (case c h ''GET'' p of
             Inl err \<Rightarrow> ([], Returned (Some (Errorf ''failed to get secrets: '' err)))
           | Inr res \<Rightarrow> listRun_render w opts (Secrets res))"
      and pre: "pre = [CallHttpClient] \<or> pre = [CallHttpClient, CallBaseRepo]"
    for pre h p
  proof (cases "c h ''GET'' p")
    case (Inl e)
    with run have "listRun w opts =
        (pre @ [CallREST h ''GET'' p], Returned (Some (Errorf ''failed to get secrets: '' e)))"
      by (simp add: after_def)
    with Inl show ?thesis
      using fetch_error [OF Inr pre] by blast
  next
    case res: (Inr res)
    with run have "listRun w opts =
        (pre @ [CallREST h ''GET'' p, CallRender (map (renderedRow w opts) (Secrets res))],
         Returned (Out (IO opts) (map (renderedRow w opts) (Secrets res))))"
      by (simp add: after_def listRun_render_eq)
    with res show ?thesis
      using rendered [OF Inr pre] by blast
  qed
  consider (lit) "OrgName opts \<noteq> []" "OrgName opts \<noteq> ''@owner''"
    | (norepo) e where "OrgName opts = [] \<or> OrgName opts = ''@owner''" "BaseRepo opts = Inl e"
    | (owner) r where "OrgName opts = ''@owner''" "BaseRepo opts = Inr r" "RepoOwner r \<noteq> []"
    | (repo) r where "BaseRepo opts = Inr r"
        "OrgName opts = [] \<or> OrgName opts = ''@owner'' \<and> RepoOwner r = []"
    by (cases "BaseRepo opts") auto
  then show ?thesis
  proof cases
    case lit
    show ?thesis
      by (rule step [of "[CallHttpClient]"]) (simp_all add: listRun_literal [OF Inr lit])
  next
    case norepo
    then show ?thesis
      using no_repo [OF Inr] listRun_no_repo [OF Inr] by blast
  next
    case owner
    show ?thesis
      by (rule step [of "[CallHttpClient, CallBaseRepo]"])
        (simp_all add: listRun_owner [OF Inr owner])
  next
    case repo
    show ?thesis
      by (rule step [of "[CallHttpClient, CallBaseRepo]"])
        (simp_all add: listRun_repo [OF Inr repo])
  qed
qed

lemma listRun_never_panics: "snd (listRun w opts) \<noteq> Panicked"
  by (cases rule: listRun_cases [of opts w]) auto

lemma listRun_distinct: "distinct (fst (listRun w opts))"
  by (cases rule: listRun_cases [of opts w]) auto

lemma listRun_rendered:
  assumes "CallRender rows \<in> set (fst (listRun w opts))"
  shows "last (fst (listRun w opts)) = CallRender rows \<and>
         snd (listRun w opts) = Returned (Out (IO opts) rows)"
  using assms by (cases rule: listRun_cases [of opts w]) auto

lemma listRun_fetch_failed:
  assumes "HttpClient opts = Inr c" and "CallREST h m p \<in> set (fst (listRun w opts))"
    and "c h m p = Inl e"
  shows "last (fst (listRun w opts)) = CallREST h m p \<and>
         snd (listRun w opts) = Returned (Some (Errorf ''failed to get secrets: '' e))"
  using assms by (cases rule: listRun_cases [of opts w]) auto

lemma listRun_fetched:
  assumes "HttpClient opts = Inr c" and "CallREST h m p \<in> set (fst (listRun w opts))"
    and "c h m p = Inr res"
  shows "m = ''GET'' \<and>
         filter isRender (fst (listRun w opts)) =
           [CallRender (map (renderedRow w opts) (Secrets res))] \<and>
         snd (listRun w opts) = Returned (Out (IO opts) (map (renderedRow w opts) (Secrets res)))"
  using assms by (cases rule: listRun_cases [of opts w]) auto

subsection \<open>The runs on the concrete inputs\<close>

lemmas ex_defs = exWorld_def exRepo_def exRepoNoOwner_def exOrgSecret_def exRepoSecret_def
  exClient_def exClientEmpty_def exClientFails_def exOut_def exOutFails_def exOpts_def
  exOptsNoOwner_def exOptsNoRepo_def exOptsNoClient_def exOptsFetchFails_def
  exOptsRenderFails_def exOptsEmpty_def

lemmas eval_defs = renderedRow_eq fmtVisibility_def VisAll_def Format_2006_01_02_def
  appendInt_def decimal.simps digit_def ToUpper_all after_def

lemma ex_render_tty:
  "listRun_render exWorld (exOpts org True) [exOrgSecret, exRepoSecret] =
     ([CallRender [[''TOKEN'', ''Updated 2024-01-15'', ''Visible to all repositories''],
                   [''KEY'', ''Updated 2023-12-01'']]],
      Returned None)"
  by (simp add: listRun_render_eq eval_defs ex_defs)

lemma ex_render_pipe:
  "listRun_render exWorld (exOpts org False) [exOrgSecret, exRepoSecret] =
     ([CallRender [[''TOKEN'', ''2024-01-15'', ''ALL''], [''KEY'', ''2023-12-01'']]],
      Returned None)"
  by (simp add: listRun_render_eq eval_defs ex_defs)

lemma ex_run_acme_pipe:
  "listRun exWorld (exOpts ''acme'' False) =
     ([CallHttpClient, CallREST ''github.com'' ''GET'' ''orgs/acme/actions/secrets'',
       CallRender [[''TOKEN'', ''2024-01-15'', ''ALL''], [''KEY'', ''2023-12-01'']]],
      Returned None)"
proof -
  have "HttpClient (exOpts ''acme'' False) = Inr exClient"
    and "OrgName (exOpts ''acme'' False) \<noteq> []"
    and "OrgName (exOpts ''acme'' False) \<noteq> ''@owner''"
    by (simp_all add: exOpts_def)
  from listRun_literal [OF this, of exWorld] show ?thesis
    by (simp add: ex_render_pipe after_def exClient_def) (simp add: exOpts_def exWorld_def)
qed

lemma ex_run_no_owner:
  "listRun exWorld exOptsNoOwner =
     ([CallHttpClient, CallBaseRepo,
       CallREST ''ghe.example.com'' ''GET'' ''repos//widgets/actions/secrets'',
       CallRender [[''TOKEN'', ''Updated 2024-01-15'', ''Visible to all repositories''],
                   [''KEY'', ''Updated 2023-12-01'']]],
      Returned None)"
proof -
  have "HttpClient exOptsNoOwner = Inr exClient"
    and "BaseRepo exOptsNoOwner = Inr exRepoNoOwner"
    and "OrgName exOptsNoOwner = [] \<or>
         OrgName exOptsNoOwner = ''@owner'' \<and> RepoOwner exRepoNoOwner = []"
    by (simp_all add: exOptsNoOwner_def exRepoNoOwner_def)
  from listRun_repo [OF this, of exWorld] show ?thesis
    by (simp add: listRun_render_eq eval_defs ex_defs)
qed

lemma ex_run_fetch_fails:
  "listRun exWorld exOptsFetchFails =
     ([CallHttpClient, CallREST ''github.com'' ''GET'' ''orgs/acme/actions/secrets''],
      Returned (Some (WrapError ''failed to get secrets: HTTP 404'' (Err ''HTTP 404''))))"
proof -
  have "HttpClient exOptsFetchFails = Inr exClientFails"
    and "OrgName exOptsFetchFails \<noteq> []"
    and "OrgName exOptsFetchFails \<noteq> ''@owner''"
    by (simp_all add: exOptsFetchFails_def)
  from listRun_literal [OF this, of exWorld] show ?thesis
    by (simp add: Errorf_def eval_defs ex_defs)
qed

lemma ex_run_render_fails:
  "listRun exWorld exOptsRenderFails =
     ([CallHttpClient, CallREST ''github.com'' ''GET'' ''orgs/acme/actions/secrets'',
       CallRender [[''TOKEN'', ''2024-01-15'', ''ALL''], [''KEY'', ''2023-12-01'']]],
      Returned (Some (Err ''broken pipe'')))"
proof -
  have "HttpClient exOptsRenderFails = Inr exClient"
    and "OrgName exOptsRenderFails \<noteq> []"
    and "OrgName exOptsRenderFails \<noteq> ''@owner''"
    by (simp_all add: exOptsRenderFails_def)
  from listRun_literal [OF this, of exWorld] show ?thesis
    by (simp add: listRun_render_eq eval_defs ex_defs)
qed

lemma ex_run_empty:
  "listRun exWorld exOptsEmpty =
     ([CallHttpClient, CallBaseRepo,
       CallREST ''ghe.example.com'' ''GET'' ''repos/octo/widgets/actions/secrets'',
       CallRender []],
      Returned None)"
proof -
  have "HttpClient exOptsEmpty = Inr exClientEmpty"
    and "BaseRepo exOptsEmpty = Inr exRepo"
    and "OrgName exOptsEmpty = [] \<or> OrgName exOptsEmpty = ''@owner'' \<and> RepoOwner exRepo = []"
    by (simp_all add: exOptsEmpty_def)
  from listRun_repo [OF this, of exWorld] show ?thesis
    by (simp add: listRun_render_eq eval_defs ex_defs)
qed

lemma ex_run_no_repo_acme:
  "listRun exWorld (exOptsNoRepo ''acme'') =
     ([CallHttpClient, CallREST ''github.com'' ''GET'' ''orgs/acme/actions/secrets'',
       CallRender [[''TOKEN'', ''Updated 2024-01-15'', ''Visible to all repositories''],
                   [''KEY'', ''Updated 2023-12-01'']]],
      Returned None)"
proof -
  have "HttpClient (exOptsNoRepo ''acme'') = Inr exClient"
    and "OrgName (exOptsNoRepo ''acme'') \<noteq> []"
    and "OrgName (exOptsNoRepo ''acme'') \<noteq> ''@owner''"
    by (simp_all add: exOptsNoRepo_def)
  from listRun_literal [OF this, of exWorld] show ?thesis
    by (simp add: listRun_render_eq eval_defs ex_defs)
qed


section \<open>The claims\<close>

subsection \<open>Which request is sent\<close>

text \<open>
  C1. When \<^verbatim>\<open>--org\<close> is the shorthand \<^verbatim>\<open>@owner\<close> and the client and the repository
  accessor both succeed, the command sends exactly one request: a \<^verbatim>\<open>GET\<close> of
  \<^verbatim>\<open>orgs/{owner}/actions/secrets\<close> to the host of the repository that the accessor
  returned, not to the default host; the accessor has been called. The repository is one
  that has an owner: \<^verbatim>\<open>RepoOwner\<close> is not the empty string, as for every repository
  addressed by owner and name.
\<close>

theorem owner_shorthand_fetch:
  assumes "OrgName opts = ''@owner''" and "HttpClient opts = Inr c" and "BaseRepo opts = Inr r"
    and "RepoOwner r \<noteq> []"
  shows "filter isREST (fst (listRun w opts)) =
           [CallREST (RepoHost r) ''GET'' (''orgs/'' @ RepoOwner r @ ''/actions/secrets'')]
         \<and> CallBaseRepo \<in> set (fst (listRun w opts))"
  by (simp add: listRun_owner [OF assms(2) assms(1) assms(3) assms(4)] after_def
      listRun_render_eq split: sum.splits)

theorem owner_shorthand_fetch_witness:
  "OrgName (exOpts ''@owner'' False) = ''@owner''
   \<and> HttpClient (exOpts ''@owner'' False) = Inr exClient
   \<and> BaseRepo (exOpts ''@owner'' False) = Inr exRepo
   \<and> RepoOwner exRepo \<noteq> []
   \<and> OverridableDefault exWorld = ''github.com''
   \<and> filter isREST (fst (listRun exWorld (exOpts ''@owner'' False))) =
        [CallREST ''ghe.example.com'' ''GET'' ''orgs/octo/actions/secrets'']
   \<and> CallBaseRepo \<in> set (fst (listRun exWorld (exOpts ''@owner'' False)))"
proof -
  have h: "OrgName (exOpts ''@owner'' False) = ''@owner''"
    "HttpClient (exOpts ''@owner'' False) = Inr exClient"
    "BaseRepo (exOpts ''@owner'' False) = Inr exRepo"
    "RepoOwner exRepo \<noteq> []"
    by (simp_all add: exOpts_def exRepo_def)
  from owner_shorthand_fetch [OF h, of exWorld] h show ?thesis
    by (simp add: exRepo_def exWorld_def)
qed

text \<open>
  The hypothesis on the owner cannot be dropped from the theorem: \<^verbatim>\<open>listRun\<close> tests
  \<^verbatim>\<open>orgName != ""\<close> to choose between the two fetchers, so on a value of
  \<^verbatim>\<open>ghrepo.Interface\<close> whose owner is the empty string the request would be the
  repository's.
\<close>

lemma owner_shorthand_needs_owner:
  "OrgName exOptsNoOwner = ''@owner''
   \<and> BaseRepo exOptsNoOwner = Inr exRepoNoOwner
   \<and> RepoOwner exRepoNoOwner = []
   \<and> filter isREST (fst (listRun exWorld exOptsNoOwner)) =
        [CallREST ''ghe.example.com'' ''GET'' ''repos//widgets/actions/secrets'']"
  by (simp add: ex_run_no_owner) (simp add: exOptsNoOwner_def exRepoNoOwner_def)

text \<open>
  C2. When \<^verbatim>\<open>--org\<close> is a literal name (not empty, not the shorthand) and the client is
  created, the command sends exactly one request: a \<^verbatim>\<open>GET\<close> of
  \<^verbatim>\<open>orgs/{name}/actions/secrets\<close> to the default host, whatever the repository accessor
  would return.
\<close>

theorem literal_org_fetch:
  assumes "OrgName opts \<noteq> []" and "OrgName opts \<noteq> ''@owner''" and "HttpClient opts = Inr c"
  shows "filter isREST (fst (listRun w opts)) =
           [CallREST (OverridableDefault w) ''GET'' (''orgs/'' @ OrgName opts @ ''/actions/secrets'')]"
  by (simp add: listRun_literal [OF assms(3) assms(1) assms(2)] after_def
      listRun_render_eq split: sum.splits)

theorem literal_org_fetch_witness:
  "OrgName (exOpts ''acme'' True) \<noteq> []
   \<and> OrgName (exOpts ''acme'' True) \<noteq> ''@owner''
   \<and> HttpClient (exOpts ''acme'' True) = Inr exClient
   \<and> BaseRepo (exOpts ''acme'' True) = Inr exRepo
   \<and> RepoHost exRepo = ''ghe.example.com''
   \<and> filter isREST (fst (listRun exWorld (exOpts ''acme'' True))) =
        [CallREST ''github.com'' ''GET'' ''orgs/acme/actions/secrets'']"
proof -
  have h: "OrgName (exOpts ''acme'' True) \<noteq> []"
    "OrgName (exOpts ''acme'' True) \<noteq> ''@owner''"
    "HttpClient (exOpts ''acme'' True) = Inr exClient"
    by (simp_all add: exOpts_def)
  from literal_org_fetch [OF h, of exWorld] h show ?thesis
    by (simp add: exOpts_def exRepo_def exWorld_def)
qed

text \<open>
  C3. When \<^verbatim>\<open>--org\<close> is omitted (the empty name) and the client and the accessor succeed,
  the command sends exactly one request: a \<^verbatim>\<open>GET\<close> of
  \<^verbatim>\<open>repos/{owner}/{name}/actions/secrets\<close> to the host of the repository that the
  accessor returned.
\<close>

theorem repo_fetch:
  assumes "OrgName opts = []" and "HttpClient opts = Inr c" and "BaseRepo opts = Inr r"
  shows "filter isREST (fst (listRun w opts)) =
           [CallREST (RepoHost r) ''GET''
              (''repos/'' @ RepoOwner r @ ''/'' @ RepoName r @ ''/actions/secrets'')]
         \<and> CallBaseRepo \<in> set (fst (listRun w opts))"
  using assms(1)
  by (simp add: listRun_repo [OF assms(2) assms(3)] after_def
      listRun_render_eq split: sum.splits)

theorem repo_fetch_witness:
  "OrgName (exOpts [] False) = []
   \<and> HttpClient (exOpts [] False) = Inr exClient
   \<and> BaseRepo (exOpts [] False) = Inr exRepo
   \<and> filter isREST (fst (listRun exWorld (exOpts [] False))) =
        [CallREST ''ghe.example.com'' ''GET'' ''repos/octo/widgets/actions/secrets'']
   \<and> CallBaseRepo \<in> set (fst (listRun exWorld (exOpts [] False)))"
proof -
  have h: "OrgName (exOpts [] False) = []"
    "HttpClient (exOpts [] False) = Inr exClient"
    "BaseRepo (exOpts [] False) = Inr exRepo"
    by (simp_all add: exOpts_def)
  from repo_fetch [OF h, of exWorld] h show ?thesis
    by (simp add: exRepo_def)
qed


subsection \<open>What is rendered\<close>

text \<open>
  C4. The row of a secret whose visibility tag is not empty has three columns. On a terminal
  the third is \<^verbatim>\<open>Visible to all repositories\<close>, \<^verbatim>\<open>Visible to private repositories\<close> or
  \<^verbatim>\<open>Visible to selected repositories\<close> for the tags \<^verbatim>\<open>all\<close>, \<^verbatim>\<open>private\<close> and
  \<^verbatim>\<open>selected\<close>, and the empty string for every other tag; otherwise it is the tag in upper
  case. The rows are those of the table that the presenter hands to \<^verbatim>\<open>Render\<close>.
\<close>

theorem presenter_visibility_column:
  assumes "i < length secrets" and "Visibility (secrets ! i) \<noteq> []"
    and "fst (listRun_render w opts secrets) = [CallRender rows]"
  shows "length (rows ! i) = 3 \<and>
         rows ! i ! 2 =
           (if IsStdoutTTY (IO opts)
            then (if Visibility (secrets ! i) = ''all'' then ''Visible to all repositories''
                  else if Visibility (secrets ! i) = ''private''
                    then ''Visible to private repositories''
                  else if Visibility (secrets ! i) = ''selected''
                    then ''Visible to selected repositories''
                  else [])
            else ToUpper (unicodeUpper w) (Visibility (secrets ! i)))"
proof -
  from assms(3) have rows: "rows = map (renderedRow w opts) secrets"
    by (simp add: listRun_render_eq)
  show ?thesis
    using assms(1,2)
    by (simp add: rows renderedRow_eq fmtVisibility_def VisAll_def VisPrivate_def VisSelected_def)
qed

theorem presenter_visibility_column_witness:
  "(0::nat) < length [exOrgSecret, exRepoSecret]
   \<and> Visibility ([exOrgSecret, exRepoSecret] ! 0) = ''all''
   \<and> fst (listRun_render exWorld (exOpts ''acme'' True) [exOrgSecret, exRepoSecret]) =
        [CallRender [[''TOKEN'', ''Updated 2024-01-15'', ''Visible to all repositories''],
                     [''KEY'', ''Updated 2023-12-01'']]]
   \<and> fst (listRun_render exWorld (exOpts ''acme'' False) [exOrgSecret, exRepoSecret]) =
        [CallRender [[''TOKEN'', ''2024-01-15'', ''ALL''], [''KEY'', ''2023-12-01'']]]
   \<and> ToUpper (unicodeUpper exWorld) (Visibility ([exOrgSecret, exRepoSecret] ! 0)) = ''ALL''"
proof -
  have i: "(0::nat) < length [exOrgSecret, exRepoSecret]"
    and v: "Visibility ([exOrgSecret, exRepoSecret] ! 0) \<noteq> []"
    by (simp_all add: exOrgSecret_def)
  have tty: "fst (listRun_render exWorld (exOpts ''acme'' True) [exOrgSecret, exRepoSecret]) =
        [CallRender [[''TOKEN'', ''Updated 2024-01-15'', ''Visible to all repositories''],
                     [''KEY'', ''Updated 2023-12-01'']]]"
    and pipe: "fst (listRun_render exWorld (exOpts ''acme'' False) [exOrgSecret, exRepoSecret]) =
        [CallRender [[''TOKEN'', ''2024-01-15'', ''ALL''], [''KEY'', ''2023-12-01'']]]"
    by (simp_all add: ex_render_tty ex_render_pipe)
  from presenter_visibility_column [OF i v pipe] tty pipe show ?thesis
    by (simp add: exOpts_def exOrgSecret_def)
qed

text \<open>
  C6. Once the request has been answered with a payload, the table handed to \<^verbatim>\<open>Render\<close>
  (there is exactly one such call) has one row per secret of the payload, in the order of
  the payload: it is the payload mapped to rows, so it has the payload's length, and its
  first column lists the names in the payload's order.
\<close>

theorem rows_follow_payload:
  assumes "HttpClient opts = Inr c" and "CallREST h m p \<in> set (fst (listRun w opts))"
    and "c h m p = Inr res"
  shows "filter isRender (fst (listRun w opts)) =
           [CallRender (map (renderedRow w opts) (Secrets res))]
         \<and> length (map (renderedRow w opts) (Secrets res)) = length (Secrets res)
         \<and> map hd (map (renderedRow w opts) (Secrets res)) = map Name (Secrets res)"
  using listRun_fetched [OF assms] by (simp add: hd_renderedRow)

theorem rows_follow_payload_witness:
  "HttpClient (exOpts ''acme'' False) = Inr exClient
   \<and> CallREST ''github.com'' ''GET'' ''orgs/acme/actions/secrets''
        \<in> set (fst (listRun exWorld (exOpts ''acme'' False)))
   \<and> exClient ''github.com'' ''GET'' ''orgs/acme/actions/secrets'' =
        Inr \<lparr>Secrets = [exOrgSecret, exRepoSecret]\<rparr>
   \<and> filter isRender (fst (listRun exWorld (exOpts ''acme'' False))) =
        [CallRender [[''TOKEN'', ''2024-01-15'', ''ALL''], [''KEY'', ''2023-12-01'']]]
   \<and> map hd (map (renderedRow exWorld (exOpts ''acme'' False)) [exOrgSecret, exRepoSecret]) =
        [''TOKEN'', ''KEY'']"
proof -
  have h: "HttpClient (exOpts ''acme'' False) = Inr exClient"
    "CallREST ''github.com'' ''GET'' ''orgs/acme/actions/secrets''
        \<in> set (fst (listRun exWorld (exOpts ''acme'' False)))"
    "exClient ''github.com'' ''GET'' ''orgs/acme/actions/secrets'' =
        Inr \<lparr>Secrets = [exOrgSecret, exRepoSecret]\<rparr>"
    by (simp_all add: ex_run_acme_pipe exClient_def) (simp add: exOpts_def)
  from rows_follow_payload [OF h] h show ?thesis
    by (simp add: ex_run_acme_pipe exOrgSecret_def exRepoSecret_def)
qed

text \<open>
  C7. The second column of every row is the date of \<^verbatim>\<open>updated_at\<close> in the layout
  \<^verbatim>\<open>2006-01-02\<close>, after the text \<^verbatim>\<open>Updated \<close> on a terminal and bare otherwise. For a
  date of the years 0 to 9999 that layout is ten characters, digits but for a dash at the
  fifth and at the eighth place.
\<close>

theorem presenter_date_column:
  assumes "i < length secrets"
    and "fst (listRun_render w opts secrets) = [CallRender rows]"
  shows "rows ! i ! 1 =
           (if IsStdoutTTY (IO opts)
            then ''Updated '' @ Format_2006_01_02 (UpdatedAt (secrets ! i))
            else Format_2006_01_02 (UpdatedAt (secrets ! i)))
         \<and> (0 \<le> Year (UpdatedAt (secrets ! i)) \<and> Year (UpdatedAt (secrets ! i)) \<le> 9999
             \<and> 1 \<le> Month (UpdatedAt (secrets ! i)) \<and> Month (UpdatedAt (secrets ! i)) \<le> 12
             \<and> 1 \<le> Day (UpdatedAt (secrets ! i)) \<and> Day (UpdatedAt (secrets ! i)) \<le> 31 \<longrightarrow>
            length (Format_2006_01_02 (UpdatedAt (secrets ! i))) = 10
            \<and> Format_2006_01_02 (UpdatedAt (secrets ! i)) ! 4 = CHR ''-''
            \<and> Format_2006_01_02 (UpdatedAt (secrets ! i)) ! 7 = CHR ''-''
            \<and> set (Format_2006_01_02 (UpdatedAt (secrets ! i))) \<subseteq> set ''0123456789-'')"
proof -
  from assms(2) have rows: "rows = map (renderedRow w opts) secrets"
    by (simp add: listRun_render_eq)
  have "rows ! i ! 1 =
      (if IsStdoutTTY (IO opts)
       then ''Updated '' @ Format_2006_01_02 (UpdatedAt (secrets ! i))
       else Format_2006_01_02 (UpdatedAt (secrets ! i)))"
    using assms(1) by (simp add: rows renderedRow_eq)
  then show ?thesis
    using Format_shape [of "UpdatedAt (secrets ! i)"] by blast
qed

theorem presenter_date_column_witness:
  "(0::nat) < length [exOrgSecret, exRepoSecret]
   \<and> UpdatedAt ([exOrgSecret, exRepoSecret] ! 0) = \<lparr>Year = 2024, Month = 1, Day = 15\<rparr>
   \<and> fst (listRun_render exWorld (exOpts ''acme'' True) [exOrgSecret, exRepoSecret]) =
        [CallRender [[''TOKEN'', ''Updated 2024-01-15'', ''Visible to all repositories''],
                     [''KEY'', ''Updated 2023-12-01'']]]
   \<and> fst (listRun_render exWorld (exOpts ''acme'' False) [exOrgSecret, exRepoSecret]) =
        [CallRender [[''TOKEN'', ''2024-01-15'', ''ALL''], [''KEY'', ''2023-12-01'']]]
   \<and> Format_2006_01_02 (UpdatedAt ([exOrgSecret, exRepoSecret] ! 0)) = ''2024-01-15''
   \<and> length (Format_2006_01_02 (UpdatedAt ([exOrgSecret, exRepoSecret] ! 0))) = 10"
proof -
  have i: "(0::nat) < length [exOrgSecret, exRepoSecret]"
    by simp
  have tty: "fst (listRun_render exWorld (exOpts ''acme'' True) [exOrgSecret, exRepoSecret]) =
        [CallRender [[''TOKEN'', ''Updated 2024-01-15'', ''Visible to all repositories''],
                     [''KEY'', ''Updated 2023-12-01'']]]"
    and pipe: "fst (listRun_render exWorld (exOpts ''acme'' False) [exOrgSecret, exRepoSecret]) =
        [CallRender [[''TOKEN'', ''2024-01-15'', ''ALL''], [''KEY'', ''2023-12-01'']]]"
    by (simp_all add: ex_render_tty ex_render_pipe)
  from presenter_date_column [OF i pipe] tty pipe show ?thesis
    by (simp add: exOpts_def exOrgSecret_def)
qed

text \<open>
  C8. The row of a secret whose visibility is the empty string has exactly two columns: the
  name and the date.
\<close>

theorem presenter_two_columns:
  assumes "i < length secrets" and "Visibility (secrets ! i) = []"
    and "fst (listRun_render w opts secrets) = [CallRender rows]"
  shows "length (rows ! i) = 2 \<and>
         rows ! i =
           [Name (secrets ! i),
            if IsStdoutTTY (IO opts)
            then ''Updated '' @ Format_2006_01_02 (UpdatedAt (secrets ! i))
            else Format_2006_01_02 (UpdatedAt (secrets ! i))]"
proof -
  from assms(3) have rows: "rows = map (renderedRow w opts) secrets"
    by (simp add: listRun_render_eq)
  show ?thesis
    using assms(1,2) by (simp add: rows renderedRow_eq)
qed

theorem presenter_two_columns_witness:
  "(1::nat) < length [exOrgSecret, exRepoSecret]
   \<and> Visibility ([exOrgSecret, exRepoSecret] ! 1) = []
   \<and> fst (listRun_render exWorld (exOpts [] True) [exOrgSecret, exRepoSecret]) =
        [CallRender [[''TOKEN'', ''Updated 2024-01-15'', ''Visible to all repositories''],
                     [''KEY'', ''Updated 2023-12-01'']]]
   \<and> length ([[''TOKEN'', ''Updated 2024-01-15'', ''Visible to all repositories''],
               [''KEY'', ''Updated 2023-12-01'']] ! 1) = 2
   \<and> Name ([exOrgSecret, exRepoSecret] ! 1) = ''KEY''
   \<and> Format_2006_01_02 (UpdatedAt ([exOrgSecret, exRepoSecret] ! 1)) = ''2023-12-01''"
proof -
  have i: "(1::nat) < length [exOrgSecret, exRepoSecret]"
    and v: "Visibility ([exOrgSecret, exRepoSecret] ! 1) = []"
    by (simp_all add: exRepoSecret_def)
  have tty: "fst (listRun_render exWorld (exOpts [] True) [exOrgSecret, exRepoSecret]) =
        [CallRender [[''TOKEN'', ''Updated 2024-01-15'', ''Visible to all repositories''],
                     [''KEY'', ''Updated 2023-12-01'']]]"
    by (simp add: ex_render_tty)
  from presenter_two_columns [OF i v tty] tty v show ?thesis
    by (simp add: exOpts_def exRepoSecret_def)
qed


subsection \<open>Errors and empty payloads\<close>

text \<open>
  C5, as amended. The first failure ends the run: no collaborator is called after the one
  that failed, and none is called twice. What is returned is the error of the failed call
  wrapped by \<^verbatim>\<open>fmt.Errorf\<close> with \<^verbatim>\<open>%w\<close> under the prefix
  \<^verbatim>\<open>could not create http client: \<close>, \<^verbatim>\<open>could not determine base repo: \<close> or
  \<^verbatim>\<open>failed to get secrets: \<close>: its message is the prefix followed by the original
  message, and unwrapping it gives the original error. Only the error of \<^verbatim>\<open>Render\<close> is
  returned as it is.
\<close>

theorem first_error_halts_wrapped:
  "(HttpClient opts = Inl e \<longrightarrow>
      listRun w opts =
        ([CallHttpClient], Returned (Some (Errorf ''could not create http client: '' e))))
   \<and> (HttpClient opts = Inr c \<and> (OrgName opts = [] \<or> OrgName opts = ''@owner'')
        \<and> BaseRepo opts = Inl e \<longrightarrow>
      listRun w opts =
        ([CallHttpClient, CallBaseRepo],
         Returned (Some (Errorf ''could not determine base repo: '' e))))
   \<and> (HttpClient opts = Inr c \<and> CallREST h m p \<in> set (fst (listRun w opts))
        \<and> c h m p = Inl e \<longrightarrow>
      last (fst (listRun w opts)) = CallREST h m p \<and>
      snd (listRun w opts) = Returned (Some (Errorf ''failed to get secrets: '' e)))
   \<and> (CallRender rows \<in> set (fst (listRun w opts)) \<and> Out (IO opts) rows = Some e \<longrightarrow>
      last (fst (listRun w opts)) = CallRender rows \<and>
      snd (listRun w opts) = Returned (Some e))
   \<and> distinct (fst (listRun w opts))
   \<and> Unwrap (Errorf prefix e) = Some e
   \<and> ErrorMsg (Errorf prefix e) = prefix @ ErrorMsg e"
proof (intro conjI impI)
  show "distinct (fst (listRun w opts))"
    by (rule listRun_distinct)
  show "Unwrap (Errorf prefix e) = Some e" and "ErrorMsg (Errorf prefix e) = prefix @ ErrorMsg e"
    by (simp_all add: Errorf_def)
qed (auto simp add: listRun_no_client listRun_no_repo listRun_rendered listRun_fetch_failed)

theorem first_error_halts_wrapped_witness:
  "HttpClient exOptsNoClient = Inl (Err ''no token'')
   \<and> listRun exWorld exOptsNoClient =
        ([CallHttpClient],
         Returned (Some (WrapError ''could not create http client: no token'' (Err ''no token''))))
   \<and> BaseRepo (exOptsNoRepo []) = Inl (Err ''not a git repository'')
   \<and> listRun exWorld (exOptsNoRepo []) =
        ([CallHttpClient, CallBaseRepo],
         Returned (Some (WrapError ''could not determine base repo: not a git repository''
                           (Err ''not a git repository''))))
   \<and> exClientFails ''github.com'' ''GET'' ''orgs/acme/actions/secrets'' = Inl (Err ''HTTP 404'')
   \<and> listRun exWorld exOptsFetchFails =
        ([CallHttpClient, CallREST ''github.com'' ''GET'' ''orgs/acme/actions/secrets''],
         Returned (Some (WrapError ''failed to get secrets: HTTP 404'' (Err ''HTTP 404''))))
   \<and> Out (IO exOptsRenderFails) [[''TOKEN'', ''2024-01-15'', ''ALL''], [''KEY'', ''2023-12-01'']] =
        Some (Err ''broken pipe'')
   \<and> snd (listRun exWorld exOptsRenderFails) = Returned (Some (Err ''broken pipe''))
   \<and> Unwrap (WrapError ''failed to get secrets: HTTP 404'' (Err ''HTTP 404'')) =
        Some (Err ''HTTP 404'')"
proof -
  have client: "HttpClient exOptsNoClient = Inl (Err ''no token'')"
    by (simp add: exOptsNoClient_def)
  have repo: "HttpClient (exOptsNoRepo []) = Inr exClient
      \<and> (OrgName (exOptsNoRepo []) = [] \<or> OrgName (exOptsNoRepo []) = ''@owner'')
      \<and> BaseRepo (exOptsNoRepo []) = Inl (Err ''not a git repository'')"
    by (simp add: exOptsNoRepo_def)
  have fetch: "HttpClient exOptsFetchFails = Inr exClientFails
      \<and> CallREST ''github.com'' ''GET'' ''orgs/acme/actions/secrets''
          \<in> set (fst (listRun exWorld exOptsFetchFails))
      \<and> exClientFails ''github.com'' ''GET'' ''orgs/acme/actions/secrets'' = Inl (Err ''HTTP 404'')"
    by (simp add: ex_run_fetch_fails exClientFails_def) (simp add: exOptsFetchFails_def)
  have render: "CallRender [[''TOKEN'', ''2024-01-15'', ''ALL''], [''KEY'', ''2023-12-01'']]
          \<in> set (fst (listRun exWorld exOptsRenderFails))
      \<and> Out (IO exOptsRenderFails) [[''TOKEN'', ''2024-01-15'', ''ALL''], [''KEY'', ''2023-12-01'']] =
          Some (Err ''broken pipe'')"
    by (simp add: ex_run_render_fails) (simp add: exOptsRenderFails_def exOutFails_def)
  from client
    first_error_halts_wrapped [where opts = exOptsNoClient and e = "Err ''no token''"
      and w = exWorld]
  have 1: "listRun exWorld exOptsNoClient =
        ([CallHttpClient],
         Returned (Some (WrapError ''could not create http client: no token'' (Err ''no token''))))"
    by (simp add: Errorf_def)
  from repo
    first_error_halts_wrapped [where opts = "exOptsNoRepo []" and c = exClient
      and e = "Err ''not a git repository''" and w = exWorld]
  have 2: "listRun exWorld (exOptsNoRepo []) =
        ([CallHttpClient, CallBaseRepo],
         Returned (Some (WrapError ''could not determine base repo: not a git repository''
                           (Err ''not a git repository''))))"
    by (simp add: Errorf_def)
  from fetch
    first_error_halts_wrapped [where opts = exOptsFetchFails and c = exClientFails
      and h = "''github.com''" and m = "''GET''" and p = "''orgs/acme/actions/secrets''"
      and e = "Err ''HTTP 404''" and w = exWorld]
  have 3: "snd (listRun exWorld exOptsFetchFails) =
        Returned (Some (WrapError ''failed to get secrets: HTTP 404'' (Err ''HTTP 404'')))"
    by (simp add: Errorf_def)
  from render
    first_error_halts_wrapped [where opts = exOptsRenderFails
      and rows = "[[''TOKEN'', ''2024-01-15'', ''ALL''], [''KEY'', ''2023-12-01'']]"
      and e = "Err ''broken pipe''" and w = exWorld]
  have 4: "snd (listRun exWorld exOptsRenderFails) = Returned (Some (Err ''broken pipe''))"
    by simp
  from client repo fetch render 1 2 3 4 show ?thesis
    by (simp add: ex_run_fetch_fails)
qed

text \<open>
  The claim as it is written says that the error of the failed call is what the command
  returns. When the client cannot be created with the error \<^verbatim>\<open>no token\<close>, the command
  returns another error, whose message is \<^verbatim>\<open>could not create http client: no token\<close>.
\<close>

theorem error_is_wrapped_counterexample:
  "HttpClient exOptsNoClient = Inl (Err ''no token'')
   \<and> snd (listRun exWorld exOptsNoClient) =
        Returned (Some (WrapError ''could not create http client: no token'' (Err ''no token'')))
   \<and> snd (listRun exWorld exOptsNoClient) \<noteq> Returned (Some (Err ''no token''))"
proof -
  have client: "HttpClient exOptsNoClient = Inl (Err ''no token'')"
    by (simp add: exOptsNoClient_def)
  from listRun_no_client [OF client, of exWorld] client show ?thesis
    by (simp add: Errorf_def)
qed

text \<open>
  C9. When the request is answered with a payload of no secrets, the fetcher returns the
  empty list and no error; the command then renders the table of no rows and, the write of
  that table succeeding, returns \<^verbatim>\<open>nil\<close>.
\<close>

theorem empty_payload_succeeds:
  assumes "HttpClient opts = Inr c" and "CallREST h m p \<in> set (fst (listRun w opts))"
    and "c h m p = Inr res" and "Secrets res = []" and "Out (IO opts) [] = None"
  shows "snd (getSecrets (NewClientFromHTTP c) h p) = Inr []
         \<and> filter isRender (fst (listRun w opts)) = [CallRender []]
         \<and> snd (listRun w opts) = Returned None"
  using listRun_fetched [OF assms(1,2,3)] assms(3,4,5) by (simp add: getSecrets_eq)

theorem empty_payload_succeeds_witness:
  "HttpClient exOptsEmpty = Inr exClientEmpty
   \<and> CallREST ''ghe.example.com'' ''GET'' ''repos/octo/widgets/actions/secrets''
        \<in> set (fst (listRun exWorld exOptsEmpty))
   \<and> exClientEmpty ''ghe.example.com'' ''GET'' ''repos/octo/widgets/actions/secrets'' =
        Inr \<lparr>Secrets = []\<rparr>
   \<and> Out (IO exOptsEmpty) [] = None
   \<and> snd (getSecrets (NewClientFromHTTP exClientEmpty) ''ghe.example.com''
            ''repos/octo/widgets/actions/secrets'') = Inr []
   \<and> filter isRender (fst (listRun exWorld exOptsEmpty)) = [CallRender []]
   \<and> snd (listRun exWorld exOptsEmpty) = Returned None"
proof -
  have h: "HttpClient exOptsEmpty = Inr exClientEmpty"
    "CallREST ''ghe.example.com'' ''GET'' ''repos/octo/widgets/actions/secrets''
        \<in> set (fst (listRun exWorld exOptsEmpty))"
    "exClientEmpty ''ghe.example.com'' ''GET'' ''repos/octo/widgets/actions/secrets'' =
        Inr \<lparr>Secrets = []\<rparr>"
    "Secrets \<lparr>Secrets = []\<rparr> = []"
    "Out (IO exOptsEmpty) [] = None"
    by (simp_all add: ex_run_empty exClientEmpty_def) (simp_all add: exOptsEmpty_def exOut_def)
  from empty_payload_succeeds [OF h] h show ?thesis
    by simp
qed

text \<open>
  C10. With a literal organization name the repository accessor is not called: the run is
  the same whatever the accessor would have returned, so also when it would have failed,
  and it ends by returning (an error of the client, of the request or of the rendering, or
  \<^verbatim>\<open>nil\<close>), never by the panic of a call on the nil repository.
\<close>

theorem literal_org_needs_no_repo:
  assumes "OrgName opts \<noteq> []" and "OrgName opts \<noteq> ''@owner''"
  shows "CallBaseRepo \<notin> set (fst (listRun w opts))
         \<and> listRun w (opts\<lparr>BaseRepo := b\<rparr>) = listRun w opts
         \<and> snd (listRun w opts) \<noteq> Panicked"
proof (cases "HttpClient opts")
  case (Inl e)
  then show ?thesis
    by (simp add: listRun_def)
next
  case (Inr c)
  have "HttpClient (opts\<lparr>BaseRepo := b\<rparr>) = Inr c"
    using Inr by simp
  from listRun_literal [OF this, of w] listRun_literal [OF Inr assms, of w] assms
  show ?thesis
    by (simp add: after_def listRun_render_eq renderedRow_BaseRepo split: sum.splits)
qed

theorem literal_org_needs_no_repo_witness:
  "OrgName (exOptsNoRepo ''acme'') \<noteq> []
   \<and> OrgName (exOptsNoRepo ''acme'') \<noteq> ''@owner''
   \<and> BaseRepo (exOptsNoRepo ''acme'') = Inl (Err ''not a git repository'')
   \<and> CallBaseRepo \<notin> set (fst (listRun exWorld (exOptsNoRepo ''acme'')))
   \<and> listRun exWorld (exOptsNoRepo ''acme'') = listRun exWorld (exOpts ''acme'' True)
   \<and> snd (listRun exWorld (exOptsNoRepo ''acme'')) = Returned None"
proof -
  have h: "OrgName (exOptsNoRepo ''acme'') \<noteq> []" "OrgName (exOptsNoRepo ''acme'') \<noteq> ''@owner''"
    by (simp_all add: exOptsNoRepo_def)
  have upd: "(exOptsNoRepo ''acme'')\<lparr>BaseRepo := Inr exRepo\<rparr> = exOpts ''acme'' True"
    by (simp add: exOptsNoRepo_def exOpts_def)
  have ok: "snd (listRun exWorld (exOptsNoRepo ''acme'')) = Returned None"
    by (simp add: ex_run_no_repo_acme)
  from literal_org_needs_no_repo [OF h, of exWorld "Inr exRepo"] h ok show ?thesis
    by (simp add: upd) (simp add: exOptsNoRepo_def)
qed


end
